theory Spec2Isabelle
  imports Complex_Main
begin

section \<open>The Model Checker plug-in (plugins/ModelChecker/ModelChecker.py)\<close>

text \<open>
  The plug-in walks the scene, looks up the shrinkage percentage of the material of each
  sliceable node's extruder, compares the node's bounding box with two size thresholds and
  toggles between two notification messages. Python numbers are read as reals: every value
  the comparisons see is a finite number, and the comparisons of the source are exact on them.
\<close>

subsection \<open>Host data the plug-in queries\<close>

type_synonym position = string

datatype py_error = KeyError | ValueError

record bounding_box =
  width :: real
  depth :: real
  height :: real

text \<open>
  A scene node, with what the plug-in asks of it. \<open>callDecoration\<close> gives \<open>None\<close> when
  no decorator of the node answers the call, so both decorations are optional values.
\<close>

datatype scene_node = SceneNode
  (getName: string)
  (isSliceable: "bool option")
  (getActiveExtruderPosition: "position option")
  (getBoundingBox: bounding_box)
  (getChildren: "scene_node list")

record extruder =
  material_shrinkage_percentage :: "real option"

text \<open>The \<open>extruders\<close> dictionary of the global stack, in the order \<open>items()\<close> lists it.\<close>

record container_stack =
  extruders :: "(position \<times> extruder) list"

record message =
  msg_text :: string
  lifetime :: nat
  title :: string
  visible :: bool

datatype qml_component = QmlComponent string

record application =
  scene_root :: scene_node
  global_container_stack :: "container_stack option"
  plugin_path :: string
  additional_components :: "(string \<times> qml_component) list"
  logged :: "(string \<times> string) list"

record model_checker =
  button_view :: "qml_component option"
  has_warnings :: bool
  happy_message :: message
  caution_message :: message

type_synonym world = "application \<times> model_checker"

subsection \<open>Constants of the module\<close>

definition SHRINKAGE_THRESHOLD :: real where
  "SHRINKAGE_THRESHOLD = 0.5"

definition WARNING_SIZE_XY :: real where
  "WARNING_SIZE_XY = 150"

definition WARNING_SIZE_Z :: real where
  "WARNING_SIZE_Z = 100"

subsection \<open>Host operations\<close>

text \<open>
  Modelled from the spec: the scene-graph iterator \<open>DepthFirstIterator\<close> belongs to the host
  (UM.Scene.Iterator) and is not part of the plug-in. It is the depth-first traversal of the
  tree below the root: a node, then the traversal of each of its children in turn.
\<close>

fun DepthFirstIterator :: "scene_node \<Rightarrow> scene_node list" where
  "DepthFirstIterator (SceneNode n s p b cs) =
     SceneNode n s p b cs # concat (map DepthFirstIterator cs)"

text \<open>
  Modelled from the spec: localisation belongs to the host (UM.i18n). The catalogue is the
  one with no translation loaded, which gives the source text back.
\<close>

definition i18nc :: "string \<Rightarrow> string \<Rightarrow> string" where
  "i18nc ctx s = s"

text \<open>
  Modelled from the spec: the popup service belongs to the host (UM.Message). Showing a
  message makes it visible, hiding it makes it invisible, \<open>setText\<close> replaces its text.
\<close>

definition show_message :: "message \<Rightarrow> message" where
  "show_message m = m\<lparr>visible := True\<rparr>"

definition hide_message :: "message \<Rightarrow> message" where
  "hide_message m = m\<lparr>visible := False\<rparr>"

definition setText :: "string \<Rightarrow> message \<Rightarrow> message" where
  "setText s m = m\<lparr>msg_text := s\<rparr>"

definition Logger_log :: "string \<Rightarrow> string \<Rightarrow> application \<Rightarrow> application" where
  "Logger_log level s app = app\<lparr>logged := logged app @ [(level, s)]\<rparr>"

subsection \<open>Python built-ins\<close>

text \<open>Truth value of the result of a decoration call: \<open>None\<close> and \<open>False\<close> are false.\<close>

definition truthy :: "bool option \<Rightarrow> bool" where
  "truthy v = (v = Some True)"

text \<open>\<open>d[k]\<close>: raises KeyError when the key is missing; \<open>None\<close> is never an extruder position.\<close>

definition dict_getitem :: "(position \<rightharpoonup> real) \<Rightarrow> position option \<Rightarrow> py_error + real" where
  "dict_getitem d k =
     (case k of
        None \<Rightarrow> Inl KeyError
      | Some p \<Rightarrow> (case d p of None \<Rightarrow> Inl KeyError | Some v \<Rightarrow> Inr v))"

text \<open>\<open>sep.join(xs)\<close>\<close>

fun join :: "string \<Rightarrow> string list \<Rightarrow> string" where
  "join sep [] = []"
| "join sep [x] = x"
| "join sep (x # y # ys) = x @ sep @ join sep (y # ys)"

text \<open>
  \<open>template.format(**kwargs)\<close> for templates whose replacement fields are plain names
  (no conversion, no format specification, no doubled braces), which is all the template
  of this module has. The second argument is the field being read, reversed, if any.
\<close>

fun format_fields :: "(string \<rightharpoonup> string) \<Rightarrow> string option \<Rightarrow> string \<Rightarrow> py_error + string" where
  "format_fields kw None [] = Inr []"
| "format_fields kw (Some f) [] = Inl ValueError"
| "format_fields kw None (c # cs) =
     (if c = CHR ''{'' then format_fields kw (Some []) cs
      else if c = CHR ''}'' then Inl ValueError
      else (case format_fields kw None cs of Inl e \<Rightarrow> Inl e | Inr r \<Rightarrow> Inr (c # r)))"
| "format_fields kw (Some f) (c # cs) =
     (if c = CHR ''}'' then
        (case kw (rev f) of
           None \<Rightarrow> Inl KeyError
         | Some v \<Rightarrow> (case format_fields kw None cs of Inl e \<Rightarrow> Inl e | Inr r \<Rightarrow> Inr (v @ r)))
      else format_fields kw (Some (c # f)) cs)"

definition str_format :: "string \<Rightarrow> (string \<rightharpoonup> string) \<Rightarrow> py_error + string" where
  "str_format template kw = format_fields kw None template"

text \<open>\<open>os.path.join\<close> of two components on a POSIX host.\<close>

definition os_path_join :: "string \<Rightarrow> string \<Rightarrow> string" where
  "os_path_join a b =
     (if b \<noteq> [] \<and> hd b = CHR ''/'' then b
      else if a = [] \<or> last a = CHR ''/'' then a @ b
      else a @ ''/'' @ b)"

subsection \<open>The plug-in\<close>

definition HAPPY_TEXT :: string where
  "HAPPY_TEXT = ''The Model Checker did not detect any problems with your model / chosen materials combination.''"

definition WARNING_HEAD :: string where
  "WARNING_HEAD = ''Some models may not be printed optimal due to object size and chosen material for models: ''"

definition WARNING_TAIL :: string where
  "WARNING_TAIL = ''.'' @ [CHR 0x0A] @
     ''Tips that may be useful to improve the print quality:'' @ [CHR 0x0A] @
     ''1) Use rounded corners'' @ [CHR 0x0A] @
     ''2) Turn the fan off (only if the are no tiny details on the model)'' @ [CHR 0x0A] @
     ''3) Use a different material''"

definition WARNING_TEMPLATE :: string where
  "WARNING_TEMPLATE = WARNING_HEAD @ ''{model_names}'' @ WARNING_TAIL"

text \<open>\<open>__init__\<close>: the state of a fresh checker (the signal connections have no state here).\<close>

definition init :: model_checker where
  "init =
     \<lparr>button_view = None,
      has_warnings = False,
      happy_message =
        \<lparr>msg_text = i18nc ''@info:status'' HAPPY_TEXT, lifetime = 5,
         title = i18nc ''@info:title'' ''Model Checker'', visible = False\<rparr>,
      caution_message =
        \<lparr>msg_text = '''', lifetime = 0,
         title = i18nc ''@info:title'' ''Model Checker Warning'', visible = False\<rparr>\<rparr>"

text \<open>\<open>getMaterialShrinkage\<close>: the loop over \<open>extruders.items()\<close>, then the whole method.\<close>

fun shrinkage_loop :: "(position \<times> extruder) list \<Rightarrow> (position \<rightharpoonup> real) \<Rightarrow> (position \<rightharpoonup> real)" where
  "shrinkage_loop [] material_shrinkage = material_shrinkage"
| "shrinkage_loop ((extruder_position, e) # items) material_shrinkage =
     (let shrinkage = (case material_shrinkage_percentage e of None \<Rightarrow> 0 | Some v \<Rightarrow> v)
      in shrinkage_loop items (material_shrinkage(extruder_position \<mapsto> shrinkage)))"

definition getMaterialShrinkage :: "application \<Rightarrow> (position \<rightharpoonup> real)" where
  "getMaterialShrinkage app =
     (case global_container_stack app of
        None \<Rightarrow> Map.empty
      | Some stack \<Rightarrow> shrinkage_loop (extruders stack) Map.empty)"

text \<open>\<open>sliceableNodes\<close>: the generator, as the list of what it yields.\<close>

definition sliceableNodes :: "application \<Rightarrow> scene_node list" where
  "sliceableNodes app = filter (\<lambda>node. truthy (isSliceable node)) (DepthFirstIterator (scene_root app))"

text \<open>The size test of \<open>checkObjectsForShrinkage\<close>.\<close>

definition too_large :: "bounding_box \<Rightarrow> bool" where
  "too_large bbox \<longleftrightarrow>
     width bbox \<ge> WARNING_SIZE_XY \<or> depth bbox \<ge> WARNING_SIZE_XY \<or> height bbox \<ge> WARNING_SIZE_Z"

text \<open>
  \<open>checkObjectsForShrinkage\<close>: the loop over the sliceable nodes, with the list
  \<open>warning_nodes\<close> it appends to. A failed lookup ends the loop with the exception.
\<close>

fun check_loop :: "(position \<rightharpoonup> real) \<Rightarrow> scene_node list \<Rightarrow> scene_node list \<Rightarrow> py_error + scene_node list" where
  "check_loop material_shrinkage [] warning_nodes = Inr warning_nodes"
| "check_loop material_shrinkage (node # nodes) warning_nodes =
     (case dict_getitem material_shrinkage (getActiveExtruderPosition node) of
        Inl e \<Rightarrow> Inl e
      | Inr shrinkage \<Rightarrow>
          if shrinkage > SHRINKAGE_THRESHOLD then
            (if too_large (getBoundingBox node)
             then check_loop material_shrinkage nodes (warning_nodes @ [node])
             else check_loop material_shrinkage nodes warning_nodes)
          else check_loop material_shrinkage nodes warning_nodes)"

definition checkObjectsForShrinkage :: "application \<Rightarrow> py_error + scene_node list" where
  "checkObjectsForShrinkage app =
     check_loop (getMaterialShrinkage app) (sliceableNodes app) []"

text \<open>
  The test the loop body makes on a node whose lookup succeeds: the shrinkage is above the
  threshold and the bounding box is too large.
\<close>

definition exceeds :: "(position \<rightharpoonup> real) \<Rightarrow> scene_node \<Rightarrow> bool" where
  "exceeds d node =
     (case dict_getitem d (getActiveExtruderPosition node) of
        Inl e \<Rightarrow> False
      | Inr v \<Rightarrow> v > SHRINKAGE_THRESHOLD \<and> too_large (getBoundingBox node))"

text \<open>\<open>showWarningMessage\<close> and \<open>showHappyMessage\<close>\<close>

definition showWarningMessage :: "model_checker \<Rightarrow> model_checker" where
  "showWarningMessage self =
     (let self1 = self\<lparr>happy_message := hide_message (happy_message self)\<rparr>
      in self1\<lparr>caution_message := show_message (caution_message self1)\<rparr>)"

definition showHappyMessage :: "model_checker \<Rightarrow> model_checker" where
  "showHappyMessage self =
     (let self1 = self\<lparr>caution_message := hide_message (caution_message self)\<rparr>
      in self1\<lparr>happy_message := show_message (happy_message self1)\<rparr>)"

text \<open>\<open>_createView\<close>\<close>

definition createView :: "world \<Rightarrow> world" where
  "createView w =
     (case w of (app, self) \<Rightarrow>
        let app1 = Logger_log ''d'' ''Creating model checker view.'' app;
            path = os_path_join (plugin_path app1) ''ModelChecker.qml'';
            view = QmlComponent path;
            self1 = self\<lparr>button_view := Some view\<rparr>;
            app2 = app1\<lparr>additional_components := additional_components app1 @ [(''jobSpecsButton'', view)]\<rparr>;
            app3 = Logger_log ''d'' ''Model checker view created.'' app2
        in (app3, self1))"

text \<open>
  \<open>runChecks\<close>: the value of the property, or the exception it raises, with the world it
  leaves behind.
\<close>

definition runChecks :: "world \<Rightarrow> (py_error + bool) \<times> world" where
  "runChecks w =
     (case w of (app, self) \<Rightarrow>
        (case checkObjectsForShrinkage app of
           Inl e \<Rightarrow> (Inl e, w)
         | Inr warning_nodes \<Rightarrow>
             if warning_nodes \<noteq> [] then
               (case str_format (i18nc ''@info:status'' WARNING_TEMPLATE)
                      [''model_names'' \<mapsto> join '', '' (map getName warning_nodes)] of
                  Inl e \<Rightarrow> (Inl e, w)
                | Inr s \<Rightarrow> (Inr True, (app, self\<lparr>caution_message := setText s (caution_message self)\<rparr>)))
             else (Inr False, w)))"

text \<open>\<open>showWarnings\<close>\<close>

definition showWarnings :: "world \<Rightarrow> world" where
  "showWarnings w =
     (let w1 = (if button_view (snd w) = None then createView w else w)
      in if has_warnings (snd w1)
         then (fst w1, showWarningMessage (snd w1))
         else (fst w1, showHappyMessage (snd w1)))"

subsection \<open>Sequences of calls\<close>

text \<open>
  What can happen to a checker after its construction: the host reads the property,
  triggers the slot, calls the two show methods, signals that the plug-ins are initialised
  (which creates the view), or changes the scene and the machine.
\<close>

datatype call =
  RunChecks
| ShowWarnings
| ShowWarningMessage
| ShowHappyMessage
| PluginsInitialized
| HostChange scene_node "container_stack option"

fun perform :: "call \<Rightarrow> world \<Rightarrow> world" where
  "perform RunChecks w = snd (runChecks w)"
| "perform ShowWarnings w = showWarnings w"
| "perform ShowWarningMessage w = (fst w, showWarningMessage (snd w))"
| "perform ShowHappyMessage w = (fst w, showHappyMessage (snd w))"
| "perform PluginsInitialized w = createView w"
| "perform (HostChange new_root new_stack) w =
     ((fst w)\<lparr>scene_root := new_root, global_container_stack := new_stack\<rparr>, snd w)"

fun perform_all :: "call list \<Rightarrow> world \<Rightarrow> world" where
  "perform_all [] w = w"
| "perform_all (c # cs) w = perform_all cs (perform c w)"

subsection \<open>The conditions of the specification\<close>

text \<open>
  The lookup \<open>material_shrinkage[node_extruder_position]\<close> has no value: the position is
  not a key of the dictionary.
\<close>

definition missing_key :: "(position \<rightharpoonup> real) \<Rightarrow> position option \<Rightarrow> bool" where
  "missing_key d k = (case k of None \<Rightarrow> True | Some p \<Rightarrow> d p = None)"

text \<open>
  The rule in the words of the specification: a sliceable node whose extruder's material
  shrinks by more than 0.5 percent and whose bounding box is at least 150 wide, at least
  150 deep or at least 100 high.
\<close>

definition warns_by_spec :: "(position \<rightharpoonup> real) \<Rightarrow> scene_node \<Rightarrow> bool" where
  "warns_by_spec d node \<longleftrightarrow>
     isSliceable node = Some True \<and>
     (case getActiveExtruderPosition node of
        None \<Rightarrow> False
      | Some p \<Rightarrow> (case d p of None \<Rightarrow> False | Some v \<Rightarrow> v > 0.5)) \<and>
     (width (getBoundingBox node) \<ge> 150 \<or> depth (getBoundingBox node) \<ge> 150 \<or>
      height (getBoundingBox node) \<ge> 100)"

subsection \<open>Scenes that differ in nodes that are not sliceable\<close>

text \<open>What a node says of itself, without its children.\<close>

definition own_data :: "scene_node \<Rightarrow> string \<times> bool option \<times> position option \<times> bounding_box" where
  "own_data node =
     (getName node, isSliceable node, getActiveExtruderPosition node, getBoundingBox node)"

text \<open>
  Two scenes of the same shape that agree on every sliceable node: where they differ, in
  the name, the extruder position or the bounding box of a node, the node is sliceable in
  neither of them.
\<close>

fun same_up_to_unsliceable :: "scene_node \<Rightarrow> scene_node \<Rightarrow> bool"
  and same_children_up_to_unsliceable :: "scene_node list \<Rightarrow> scene_node list \<Rightarrow> bool" where
  "same_up_to_unsliceable (SceneNode n s p b cs) (SceneNode n' s' p' b' cs') \<longleftrightarrow>
     (if truthy s \<or> truthy s' then (n, s, p, b) = (n', s', p', b') else True) \<and>
     same_children_up_to_unsliceable cs cs'"
| "same_children_up_to_unsliceable [] [] \<longleftrightarrow> True"
| "same_children_up_to_unsliceable (c # cs) (c' # cs') \<longleftrightarrow>
     same_up_to_unsliceable c c' \<and> same_children_up_to_unsliceable cs cs'"
| "same_children_up_to_unsliceable [] (c' # cs') \<longleftrightarrow> False"
| "same_children_up_to_unsliceable (c # cs) [] \<longleftrightarrow> False"

subsection \<open>Example scenes\<close>

definition cube :: scene_node where
  "cube = SceneNode ''cube'' (Some True) (Some ''0'')
            \<lparr>width = 200, depth = 20, height = 10\<rparr> []"

definition pin :: scene_node where
  "pin = SceneNode ''pin'' (Some True) (Some ''1'')
           \<lparr>width = 5, depth = 5, height = 30\<rparr> []"

definition tower :: scene_node where
  "tower = SceneNode ''tower'' (Some True) (Some ''0'')
             \<lparr>width = 30, depth = 30, height = 120\<rparr> []"

definition helper_mesh :: scene_node where
  "helper_mesh = SceneNode ''helper'' None (Some ''0'')
                   \<lparr>width = 500, depth = 500, height = 500\<rparr> []"

definition slab :: scene_node where
  "slab = SceneNode ''slab'' (Some True) (Some ''0'')
            \<lparr>width = 10, depth = 160, height = 5\<rparr> []"

definition helper_small :: scene_node where
  "helper_small = SceneNode ''support'' (Some False) (Some ''7'')
                    \<lparr>width = 1, depth = 1, height = 1\<rparr> []"

definition part_with :: "scene_node \<Rightarrow> scene_node" where
  "part_with child = SceneNode ''part'' (Some True) (Some ''0'')
                       \<lparr>width = 20, depth = 20, height = 10\<rparr> [child]"

definition scene_of :: "scene_node list \<Rightarrow> scene_node" where
  "scene_of nodes = SceneNode ''root'' None None \<lparr>width = 0, depth = 0, height = 0\<rparr> nodes"

definition group_of :: "scene_node list \<Rightarrow> scene_node" where
  "group_of nodes = SceneNode ''group'' None None \<lparr>width = 0, depth = 0, height = 0\<rparr> nodes"

definition two_extruders :: container_stack where
  "two_extruders =
     \<lparr>extruders = [(''0'', \<lparr>material_shrinkage_percentage = Some 1.2\<rparr>),
                   (''1'', \<lparr>material_shrinkage_percentage = None\<rparr>)]\<rparr>"

definition one_extruder :: container_stack where
  "one_extruder = \<lparr>extruders = [(''0'', \<lparr>material_shrinkage_percentage = Some 1.2\<rparr>)]\<rparr>"

definition app_with :: "scene_node list \<Rightarrow> container_stack option \<Rightarrow> application" where
  "app_with nodes stack =
     \<lparr>scene_root = scene_of nodes, global_container_stack = stack,
      plugin_path = ''plugins/ModelChecker'', additional_components = [], logged = []\<rparr>"

section \<open>Properties\<close>

subsection \<open>The shrinkage dictionary\<close>

lemma dom_shrinkage_loop:
  "dom (shrinkage_loop items m) = dom m \<union> fst ` set items"
proof (induction items arbitrary: m)
  case Nil
  then show ?case by simp
next
  case (Cons a items)
  obtain k e where a: "a = (k, e)" by (cases a)
  have "dom (m(k \<mapsto> (case material_shrinkage_percentage e of None \<Rightarrow> 0 | Some v \<Rightarrow> v))) = insert k (dom m)"
    by simp
  then show ?case unfolding a by (simp add: Let_def Cons.IH del: dom_fun_upd fun_upd_apply)
qed

lemma shrinkage_loop_miss:
  "k \<notin> fst ` set items \<Longrightarrow> shrinkage_loop items m k = m k"
  by (induction items arbitrary: m) (auto simp: Let_def)

lemma shrinkage_loop_hit:
  "distinct (map fst items) \<Longrightarrow> (k, e) \<in> set items \<Longrightarrow>
   shrinkage_loop items m k = Some (case material_shrinkage_percentage e of None \<Rightarrow> 0 | Some v \<Rightarrow> v)"
proof (induction items arbitrary: m)
  case Nil
  then show ?case by simp
next
  case (Cons a items)
  obtain k' e' where a: "a = (k', e')" by (cases a)
  show ?case
  proof (cases "(k, e) \<in> set items")
    case True
    with Cons a show ?thesis by (simp add: Let_def)
  next
    case False
    with Cons.prems a have eq: "k' = k" "e' = e" and notin: "k \<notin> fst ` set items" by auto
    show ?thesis using shrinkage_loop_miss [OF notin] a eq by (simp add: Let_def)
  qed
qed

subsection \<open>The loop of the check\<close>

lemma dict_getitem_missing:
  "dict_getitem d k = Inl KeyError \<longleftrightarrow> missing_key d k"
  by (auto simp: dict_getitem_def missing_key_def split: option.splits)

lemma dict_getitem_error:
  "dict_getitem d k = Inl e \<Longrightarrow> e = KeyError"
  by (auto simp: dict_getitem_def split: option.splits)

lemma missing_key_dom:
  "missing_key d k \<longleftrightarrow> k \<notin> Some ` dom d"
  by (cases k) (auto simp: missing_key_def)

lemma check_loop_ok:
  "\<forall>n\<in>set nodes. \<not> missing_key d (getActiveExtruderPosition n) \<Longrightarrow>
   check_loop d nodes ws = Inr (ws @ filter (exceeds d) nodes)"
proof (induction nodes arbitrary: ws)
  case Nil
  then show ?case by simp
next
  case (Cons n nodes)
  from Cons.prems have "\<not> missing_key d (getActiveExtruderPosition n)" by simp
  then obtain v where v: "dict_getitem d (getActiveExtruderPosition n) = Inr v"
    by (auto simp: dict_getitem_def missing_key_def split: option.splits)
  from Cons.prems have rest: "\<forall>n\<in>set nodes. \<not> missing_key d (getActiveExtruderPosition n)" by simp
  show ?case using v Cons.IH [OF rest] by (simp add: exceeds_def)
qed

lemma check_loop_KeyError:
  "\<exists>n\<in>set nodes. missing_key d (getActiveExtruderPosition n) \<Longrightarrow>
   check_loop d nodes ws = Inl KeyError"
proof (induction nodes arbitrary: ws)
  case Nil
  then show ?case by simp
next
  case (Cons n nodes)
  show ?case
  proof (cases "missing_key d (getActiveExtruderPosition n)")
    case True
    then have "dict_getitem d (getActiveExtruderPosition n) = Inl KeyError"
      by (simp add: dict_getitem_missing)
    then show ?thesis by simp
  next
    case False
    with Cons.prems have "\<exists>n\<in>set nodes. missing_key d (getActiveExtruderPosition n)" by simp
    from Cons.IH [OF this] show ?thesis
      by (auto split: sum.splits dest: dict_getitem_error)
  qed
qed

lemma check_loop_subset:
  "check_loop d nodes ws = Inr r \<Longrightarrow> set r \<subseteq> set ws \<union> set nodes"
proof (induction nodes arbitrary: ws)
  case Nil
  then show ?case by simp
next
  case (Cons n nodes)
  then show ?case by (fastforce split: sum.splits if_splits)
qed

lemma check_loop_error:
  "check_loop d nodes ws = Inl e \<Longrightarrow> e = KeyError"
proof (induction nodes arbitrary: ws)
  case Nil
  then show ?case by simp
next
  case (Cons n nodes)
  then show ?case by (auto split: sum.splits if_splits dest: dict_getitem_error)
qed

lemma exceeds_spec:
  "truthy (isSliceable n) \<Longrightarrow> exceeds d n = warns_by_spec d n"
  by (auto simp: exceeds_def warns_by_spec_def dict_getitem_def truthy_def too_large_def
      SHRINKAGE_THRESHOLD_def WARNING_SIZE_XY_def WARNING_SIZE_Z_def split: option.splits)

lemma filter_spec:
  "filter (exceeds d) (filter (\<lambda>n. truthy (isSliceable n)) xs) = filter (warns_by_spec d) xs"
  by (induction xs) (auto simp: exceeds_spec, auto simp: warns_by_spec_def truthy_def)

lemma checkObjectsForShrinkage_ok:
  assumes "\<forall>n\<in>set (sliceableNodes app). getActiveExtruderPosition n \<in> Some ` dom (getMaterialShrinkage app)"
  shows "checkObjectsForShrinkage app =
           Inr (filter (warns_by_spec (getMaterialShrinkage app)) (DepthFirstIterator (scene_root app)))"
proof -
  from assms have "\<forall>n\<in>set (sliceableNodes app).
      \<not> missing_key (getMaterialShrinkage app) (getActiveExtruderPosition n)"
    by (simp add: missing_key_dom)
  then have "checkObjectsForShrinkage app =
      Inr ([] @ filter (exceeds (getMaterialShrinkage app)) (sliceableNodes app))"
    unfolding checkObjectsForShrinkage_def by (rule check_loop_ok)
  then show ?thesis unfolding sliceableNodes_def filter_spec by simp
qed

lemma checkObjectsForShrinkage_raises:
  assumes "\<exists>n\<in>set (sliceableNodes app). getActiveExtruderPosition n \<notin> Some ` dom (getMaterialShrinkage app)"
  shows "checkObjectsForShrinkage app = Inl KeyError"
proof -
  from assms have "\<exists>n\<in>set (sliceableNodes app).
      missing_key (getMaterialShrinkage app) (getActiveExtruderPosition n)"
    by (simp add: missing_key_dom)
  then show ?thesis unfolding checkObjectsForShrinkage_def by (rule check_loop_KeyError)
qed

subsection \<open>The property and the calls\<close>

lemma format_warning_template:
  "str_format WARNING_TEMPLATE [''model_names'' \<mapsto> names] = Inr (WARNING_HEAD @ names @ WARNING_TAIL)"
  by (simp add: str_format_def WARNING_TEMPLATE_def WARNING_HEAD_def WARNING_TAIL_def)

lemma join_cons:
  "join sep (x # xs) = x @ concat (map (\<lambda>n. sep @ n) xs)"
  by (induction sep "x # xs" arbitrary: x xs rule: join.induct) simp_all

lemma runChecks_of_check:
  "runChecks (app, self) =
     (case checkObjectsForShrinkage app of
        Inl e \<Rightarrow> (Inl e, (app, self))
      | Inr ws \<Rightarrow>
          if ws \<noteq> [] then
            (Inr True, (app, self\<lparr>caution_message := (caution_message self)
               \<lparr>msg_text := WARNING_HEAD @ join '', '' (map getName ws) @ WARNING_TAIL\<rparr>\<rparr>))
          else (Inr False, (app, self)))"
  by (simp add: runChecks_def i18nc_def format_warning_template setText_def split: sum.splits)

text \<open>The check sees of a node only what the node says of itself.\<close>

lemma check_loop_own_data:
  "map own_data ns = map own_data ns' \<Longrightarrow> map own_data ws = map own_data ws' \<Longrightarrow>
   map_sum id (map own_data) (check_loop d ns ws) = map_sum id (map own_data) (check_loop d ns' ws')"
proof (induction ns arbitrary: ns' ws ws')
  case Nil
  then show ?case by simp
next
  case (Cons n ns)
  from Cons.prems(1) obtain n' ms where ns': "ns' = n' # ms" and n: "own_data n = own_data n'"
    and rest: "map own_data ns = map own_data ms"
    by (cases ns') auto
  from n have p: "getActiveExtruderPosition n = getActiveExtruderPosition n'"
    and b: "getBoundingBox n = getBoundingBox n'"
    by (simp_all add: own_data_def)
  have grow: "map own_data (ws @ [n]) = map own_data (ws' @ [n'])"
    using Cons.prems(2) n by simp
  show ?case
    unfolding ns'
    using Cons.IH [OF rest Cons.prems(2)] Cons.IH [OF rest grow]
    by (simp add: p b split: sum.splits)
qed

lemma same_up_to_unsliceable_views:
  "same_up_to_unsliceable t t' \<Longrightarrow>
     map own_data (filter (\<lambda>n. truthy (isSliceable n)) (DepthFirstIterator t)) =
     map own_data (filter (\<lambda>n. truthy (isSliceable n)) (DepthFirstIterator t'))"
  "same_children_up_to_unsliceable cs cs' \<Longrightarrow>
     map own_data (filter (\<lambda>n. truthy (isSliceable n)) (concat (map DepthFirstIterator cs))) =
     map own_data (filter (\<lambda>n. truthy (isSliceable n)) (concat (map DepthFirstIterator cs')))"
  by (induction t t' and cs cs' rule: same_up_to_unsliceable_same_children_up_to_unsliceable.induct)
     (auto simp: own_data_def)

lemma runChecks_own_data:
  assumes "map_sum id (map own_data) (checkObjectsForShrinkage app') =
           map_sum id (map own_data) (checkObjectsForShrinkage app)"
  shows "fst (runChecks (app', self)) = fst (runChecks (app, self)) \<and>
         snd (snd (runChecks (app', self))) = snd (snd (runChecks (app, self)))"
proof (cases "checkObjectsForShrinkage app")
  case (Inl e)
  with assms have "checkObjectsForShrinkage app' = Inl e"
    by (cases "checkObjectsForShrinkage app'") simp_all
  with Inl show ?thesis by (simp add: runChecks_of_check)
next
  case (Inr ws)
  with assms obtain ws' where r: "checkObjectsForShrinkage app' = Inr ws'"
    and v: "map own_data ws' = map own_data ws"
    by (cases "checkObjectsForShrinkage app'") simp_all
  have "map (fst \<circ> own_data) ws' = map (fst \<circ> own_data) ws"
    using arg_cong [OF v, of "map fst"] by simp
  then have names: "map getName ws' = map getName ws" by (simp add: own_data_def comp_def)
  from v have "length ws' = length ws" by (rule map_eq_imp_length_eq)
  then have empty: "ws' = [] \<longleftrightarrow> ws = []" by auto
  show ?thesis using Inr r names empty by (simp add: runChecks_of_check)
qed

lemma perform_has_warnings:
  "has_warnings (snd (perform c w)) = has_warnings (snd w)"
proof (cases w)
  case (Pair app self)
  show ?thesis
  proof (cases c)
    case RunChecks
    then show ?thesis by (simp add: Pair runChecks_of_check split: sum.splits)
  next
    case ShowWarnings
    then show ?thesis
      by (simp add: Pair showWarnings_def createView_def showWarningMessage_def
          showHappyMessage_def Let_def)
  next
    case ShowWarningMessage
    then show ?thesis by (simp add: showWarningMessage_def Let_def)
  next
    case ShowHappyMessage
    then show ?thesis by (simp add: showHappyMessage_def Let_def)
  next
    case PluginsInitialized
    then show ?thesis by (simp add: Pair createView_def Let_def)
  next
    case (HostChange r st)
    then show ?thesis by simp
  qed
qed

lemma perform_all_has_warnings:
  "has_warnings (snd (perform_all cs w)) = has_warnings (snd w)"
  by (induction cs arbitrary: w) (simp_all add: perform_has_warnings)

lemma showWarnings_after_calls:
  "visible (happy_message (snd (showWarnings (perform_all calls (app, init))))) \<and>
   \<not> visible (caution_message (snd (showWarnings (perform_all calls (app, init)))))"
proof -
  have "has_warnings (snd (perform_all calls (app, init))) = False"
    by (simp add: perform_all_has_warnings init_def)
  then show ?thesis
    by (cases "perform_all calls (app, init)")
       (simp add: showWarnings_def createView_def showHappyMessage_def show_message_def
          hide_message_def Let_def)
qed

subsection \<open>The example scenes\<close>

lemma app_with_sel:
  "scene_root (app_with nodes stack) = scene_of nodes"
  "global_container_stack (app_with nodes stack) = stack"
  by (simp_all add: app_with_def)

lemmas fixture_defs =
  app_with_sel scene_of_def group_of_def cube_def pin_def tower_def helper_mesh_def

lemma shrinkage_two_extruders:
  "getMaterialShrinkage (app_with nodes (Some two_extruders)) = [''0'' \<mapsto> 1.2, ''1'' \<mapsto> 0]"
  by (simp add: getMaterialShrinkage_def app_with_def two_extruders_def)

lemma shrinkage_one_extruder:
  "getMaterialShrinkage (app_with nodes (Some one_extruder)) = [''0'' \<mapsto> 1.2]"
  by (simp add: getMaterialShrinkage_def app_with_def one_extruder_def)

lemma shrinkage_no_stack:
  "getMaterialShrinkage (app_with nodes None) = Map.empty"
  by (simp add: getMaterialShrinkage_def app_with_def)

lemma check_cube_tower:
  "checkObjectsForShrinkage (app_with [cube, tower] (Some one_extruder)) = Inr [cube, tower]"
proof -
  have h: "\<forall>n\<in>set (sliceableNodes (app_with [cube, tower] (Some one_extruder))).
      getActiveExtruderPosition n \<in> Some ` dom (getMaterialShrinkage (app_with [cube, tower] (Some one_extruder)))"
    by (simp add: shrinkage_one_extruder sliceableNodes_def truthy_def fixture_defs)
  show ?thesis
    using checkObjectsForShrinkage_ok [OF h]
    by (simp add: shrinkage_one_extruder warns_by_spec_def fixture_defs)
qed

lemma check_cube_tower_slab:
  "checkObjectsForShrinkage (app_with [cube, pin, tower, slab] (Some two_extruders)) = Inr [cube, tower, slab]"
proof -
  have h: "\<forall>n\<in>set (sliceableNodes (app_with [cube, pin, tower, slab] (Some two_extruders))).
      getActiveExtruderPosition n \<in> Some ` dom (getMaterialShrinkage (app_with [cube, pin, tower, slab] (Some two_extruders)))"
    by (simp add: shrinkage_two_extruders sliceableNodes_def truthy_def fixture_defs slab_def)
  show ?thesis
    using checkObjectsForShrinkage_ok [OF h]
    by (simp add: shrinkage_two_extruders warns_by_spec_def fixture_defs slab_def)
qed

lemma check_part:
  "checkObjectsForShrinkage (app_with [part_with helper_mesh, pin] (Some two_extruders)) = Inr []"
proof -
  have h: "\<forall>n\<in>set (sliceableNodes (app_with [part_with helper_mesh, pin] (Some two_extruders))).
      getActiveExtruderPosition n \<in> Some ` dom (getMaterialShrinkage (app_with [part_with helper_mesh, pin] (Some two_extruders)))"
    by (simp add: shrinkage_two_extruders sliceableNodes_def truthy_def fixture_defs part_with_def)
  show ?thesis
    using checkObjectsForShrinkage_ok [OF h]
    by (simp add: shrinkage_two_extruders warns_by_spec_def fixture_defs part_with_def)
qed

subsection \<open>C1: the value of runChecks\<close>

text \<open>
  Claim C1, as amended. When the extruder position of every sliceable node is a key of the
  shrinkage dictionary, \<open>runChecks\<close> returns a truth value, and it is True exactly when the
  scene has a sliceable node whose extruder's material shrinks by more than 0.5 percent and
  whose bounding box is at least 150 wide, at least 150 deep or at least 100 high.
\<close>

theorem runChecks_iff_warning_node:
  assumes "\<forall>n\<in>set (sliceableNodes app). getActiveExtruderPosition n \<in> Some ` dom (getMaterialShrinkage app)"
  shows "fst (runChecks (app, self)) =
           Inr (\<exists>n\<in>set (DepthFirstIterator (scene_root app)). warns_by_spec (getMaterialShrinkage app) n)"
proof -
  have "(filter (warns_by_spec (getMaterialShrinkage app)) (DepthFirstIterator (scene_root app)) \<noteq> []) =
        (\<exists>n\<in>set (DepthFirstIterator (scene_root app)). warns_by_spec (getMaterialShrinkage app) n)"
    by (simp add: filter_empty_conv)
  then show ?thesis
    by (simp add: runChecks_of_check checkObjectsForShrinkage_ok [OF assms])
qed

text \<open>
  Two scenes under the hypothesis of C1: one with a warning node, one where the
  only large node is not sliceable.
\<close>

theorem runChecks_iff_warning_node_witness:
  "fst (runChecks (app_with [cube, pin] (Some two_extruders), init)) = Inr True \<and>
   fst (runChecks (app_with [pin, helper_mesh] (Some two_extruders), init)) = Inr False"
proof -
  have h1: "\<forall>n\<in>set (sliceableNodes (app_with [cube, pin] (Some two_extruders))).
      getActiveExtruderPosition n \<in> Some ` dom (getMaterialShrinkage (app_with [cube, pin] (Some two_extruders)))"
    by (simp add: shrinkage_two_extruders sliceableNodes_def truthy_def fixture_defs)
  have h2: "\<forall>n\<in>set (sliceableNodes (app_with [pin, helper_mesh] (Some two_extruders))).
      getActiveExtruderPosition n \<in> Some ` dom (getMaterialShrinkage (app_with [pin, helper_mesh] (Some two_extruders)))"
    by (simp add: shrinkage_two_extruders sliceableNodes_def truthy_def fixture_defs)
  show ?thesis
    using runChecks_iff_warning_node [OF h1, of init] runChecks_iff_warning_node [OF h2, of init]
    by (simp add: shrinkage_two_extruders warns_by_spec_def fixture_defs)
qed

text \<open>
  Claim C1 as stated fails: the cube is a sliceable node of the scene that
  meets both conditions, yet \<open>runChecks\<close> returns no truth value; the lookup for the pin, whose
  extruder position the machine does not have, raises KeyError first.
\<close>

theorem runChecks_raises_counterexample:
  "cube \<in> set (DepthFirstIterator (scene_root (app_with [pin, cube] (Some one_extruder)))) \<and>
   warns_by_spec (getMaterialShrinkage (app_with [pin, cube] (Some one_extruder))) cube \<and>
   fst (runChecks (app_with [pin, cube] (Some one_extruder), init)) = Inl KeyError"
proof -
  have "\<exists>n\<in>set (sliceableNodes (app_with [pin, cube] (Some one_extruder))).
      getActiveExtruderPosition n \<notin> Some ` dom (getMaterialShrinkage (app_with [pin, cube] (Some one_extruder)))"
    by (simp add: shrinkage_one_extruder sliceableNodes_def truthy_def fixture_defs)
  then have "checkObjectsForShrinkage (app_with [pin, cube] (Some one_extruder)) = Inl KeyError"
    by (rule checkObjectsForShrinkage_raises)
  then have "fst (runChecks (app_with [pin, cube] (Some one_extruder), init)) = Inl KeyError"
    by (simp add: runChecks_of_check)
  then show ?thesis
    by (simp add: shrinkage_one_extruder warns_by_spec_def fixture_defs)
qed

subsection \<open>C2: the popup of showWarnings\<close>

text \<open>
  Claim C2 at a failing input. The check finds two warning nodes and \<open>runChecks\<close>
  returns True, yet \<open>showWarnings\<close> afterwards shows the message that no problem was found and
  leaves the warning hidden: it reads \<open>_has_warnings\<close>, which no method ever sets.
\<close>

theorem showWarnings_ignores_check:
  "fst (runChecks (app_with [cube, tower] (Some one_extruder), init)) = Inr True \<and>
   visible (happy_message (snd (showWarnings (snd (runChecks (app_with [cube, tower] (Some one_extruder), init)))))) \<and>
   \<not> visible (caution_message (snd (showWarnings (snd (runChecks (app_with [cube, tower] (Some one_extruder), init))))))"
  by (simp add: runChecks_of_check check_cube_tower showWarnings_def createView_def
      showHappyMessage_def showWarningMessage_def show_message_def hide_message_def
      init_def Let_def Logger_log_def)

subsection \<open>C3: the list of warning nodes\<close>

text \<open>
  Claim C3, as amended. When the extruder position of every sliceable node is a key of the
  shrinkage dictionary, \<open>checkObjectsForShrinkage\<close> returns exactly the nodes of the traversal,
  in its order, that are sliceable, whose material shrinks by more than 0.5 percent and whose
  bounding box reaches 150 horizontally or 100 vertically.
\<close>

theorem checkObjectsForShrinkage_warning_nodes:
  assumes "\<forall>n\<in>set (sliceableNodes app). getActiveExtruderPosition n \<in> Some ` dom (getMaterialShrinkage app)"
  shows "checkObjectsForShrinkage app =
           Inr (filter (warns_by_spec (getMaterialShrinkage app)) (DepthFirstIterator (scene_root app)))"
  using assms by (rule checkObjectsForShrinkage_ok)

text \<open>
  A nested scene under the hypothesis of C3: the cube and the tower are reported,
  in traversal order; the pin (no shrinkage) and the helper (not sliceable) are not.
\<close>

theorem checkObjectsForShrinkage_warning_nodes_witness:
  "checkObjectsForShrinkage (app_with [cube, group_of [pin, helper_mesh, tower]] (Some two_extruders)) =
     Inr [cube, tower]"
proof -
  have h: "\<forall>n\<in>set (sliceableNodes (app_with [cube, group_of [pin, helper_mesh, tower]] (Some two_extruders))).
      getActiveExtruderPosition n \<in> Some ` dom (getMaterialShrinkage (app_with [cube, group_of [pin, helper_mesh, tower]] (Some two_extruders)))"
    by (simp add: shrinkage_two_extruders sliceableNodes_def truthy_def fixture_defs)
  show ?thesis
    using checkObjectsForShrinkage_warning_nodes [OF h]
    by (simp add: shrinkage_two_extruders warns_by_spec_def fixture_defs)
qed

text \<open>
  Claim C3 as stated fails: with no global stack and one sliceable node the
  list the claim describes is empty, but the method returns no list; it raises KeyError.
\<close>

theorem checkObjectsForShrinkage_no_stack_counterexample:
  "filter (warns_by_spec (getMaterialShrinkage (app_with [tower] None)))
     (DepthFirstIterator (scene_root (app_with [tower] None))) = [] \<and>
   checkObjectsForShrinkage (app_with [tower] None) = Inl KeyError"
proof -
  have "\<exists>n\<in>set (sliceableNodes (app_with [tower] None)).
      getActiveExtruderPosition n \<notin> Some ` dom (getMaterialShrinkage (app_with [tower] None))"
    by (simp add: shrinkage_no_stack sliceableNodes_def truthy_def fixture_defs)
  then have "checkObjectsForShrinkage (app_with [tower] None) = Inl KeyError"
    by (rule checkObjectsForShrinkage_raises)
  then show ?thesis
    by (simp add: shrinkage_no_stack warns_by_spec_def fixture_defs)
qed

subsection \<open>C4: the text of the warning\<close>

text \<open>
  Claim C4. When the check returns a non-empty list, \<open>runChecks\<close> returns True and has set
  the text of the caution message to the sentence of the source with, in place of its field,
  the names of the nodes of that list in its order: the first name, then each further name
  after a comma and a space. When the list is empty it returns False and changes nothing.
\<close>

theorem runChecks_sets_warning_text:
  assumes "checkObjectsForShrinkage app = Inr warning_nodes"
  shows "runChecks (app, self) =
     (case map getName warning_nodes of
        [] \<Rightarrow> (Inr False, (app, self))
      | name # names \<Rightarrow>
          (Inr True, (app, self\<lparr>caution_message := (caution_message self)
             \<lparr>msg_text :=
                ''Some models may not be printed optimal due to object size and chosen material for models: '' @
                name @ concat (map (\<lambda>n. '', '' @ n) names) @
                ''.'' @ [CHR 0x0A] @
                ''Tips that may be useful to improve the print quality:'' @ [CHR 0x0A] @
                ''1) Use rounded corners'' @ [CHR 0x0A] @
                ''2) Turn the fan off (only if the are no tiny details on the model)'' @ [CHR 0x0A] @
                ''3) Use a different material''\<rparr>\<rparr>)))"
proof (cases warning_nodes)
  case Nil
  then show ?thesis by (simp add: runChecks_of_check assms)
next
  case (Cons w ws)
  have j: "join '', '' (map getName warning_nodes) =
           getName w @ concat (map (\<lambda>n. '', '' @ n) (map getName ws))"
    unfolding Cons list.map by (rule join_cons)
  have r: "runChecks (app, self) =
      (Inr True, (app, self\<lparr>caution_message := (caution_message self)
         \<lparr>msg_text := WARNING_HEAD @ join '', '' (map getName warning_nodes) @ WARNING_TAIL\<rparr>\<rparr>))"
    using Cons by (simp add: runChecks_of_check assms)
  show ?thesis unfolding r j by (simp add: Cons WARNING_HEAD_def WARNING_TAIL_def)
qed

text \<open>
  The text for a scene with three warning nodes and a node that raises no warning (C4).
\<close>

theorem runChecks_sets_warning_text_witness:
  "runChecks (app_with [cube, pin, tower, slab] (Some two_extruders), init) =
     (Inr True, (app_with [cube, pin, tower, slab] (Some two_extruders),
        init\<lparr>caution_message := (caution_message init)\<lparr>msg_text :=
          ''Some models may not be printed optimal due to object size and chosen material for models: cube, tower, slab.'' @ [CHR 0x0A] @
          ''Tips that may be useful to improve the print quality:'' @ [CHR 0x0A] @
          ''1) Use rounded corners'' @ [CHR 0x0A] @
          ''2) Turn the fan off (only if the are no tiny details on the model)'' @ [CHR 0x0A] @
          ''3) Use a different material''\<rparr>\<rparr>))"
  using runChecks_sets_warning_text [OF check_cube_tower_slab, of init] by (simp add: fixture_defs slab_def)

subsection \<open>C5: only sliceable nodes\<close>

text \<open>
  Claim C5. Every reported node is sliceable, and a scene with no sliceable node makes
  \<open>runChecks\<close> return False. A node that is not sliceable never contributes: a second scene
  on the same machine that differs from the scene only in such nodes, whatever their extruder
  position and bounding box (the same shape with other data in nodes that are not sliceable,
  or any scene with the same sliceable nodes in the same order), has the same outcome: the
  same exception or the same reported nodes, the same value of \<open>runChecks\<close> and the same
  state of the checker after it.
\<close>

theorem only_sliceable_reported:
  "(\<forall>ws. checkObjectsForShrinkage app = Inr ws \<longrightarrow> (\<forall>n\<in>set ws. isSliceable n = Some True)) \<and>
   ((\<forall>n\<in>set (DepthFirstIterator (scene_root app)). isSliceable n \<noteq> Some True) \<longrightarrow>
      runChecks (app, self) = (Inr False, (app, self))) \<and>
   (\<forall>app'. global_container_stack app' = global_container_stack app \<and>
      (same_up_to_unsliceable (scene_root app') (scene_root app) \<or>
       map own_data (filter (\<lambda>n. isSliceable n = Some True) (DepthFirstIterator (scene_root app'))) =
       map own_data (filter (\<lambda>n. isSliceable n = Some True) (DepthFirstIterator (scene_root app)))) \<longrightarrow>
      map_sum id (map own_data) (checkObjectsForShrinkage app') =
        map_sum id (map own_data) (checkObjectsForShrinkage app) \<and>
      fst (runChecks (app', self)) = fst (runChecks (app, self)) \<and>
      snd (snd (runChecks (app', self))) = snd (snd (runChecks (app, self))))"
proof (intro conjI allI impI ballI)
  fix ws n assume c: "checkObjectsForShrinkage app = Inr ws" and n: "n \<in> set ws"
  from check_loop_subset [OF c [unfolded checkObjectsForShrinkage_def]]
  have "set ws \<subseteq> set (sliceableNodes app)" by simp
  with n show "isSliceable n = Some True" by (auto simp: sliceableNodes_def truthy_def)
next
  assume "\<forall>n\<in>set (DepthFirstIterator (scene_root app)). isSliceable n \<noteq> Some True"
  then have "sliceableNodes app = []"
    by (simp add: sliceableNodes_def truthy_def filter_empty_conv)
  then have "checkObjectsForShrinkage app = Inr []" by (simp add: checkObjectsForShrinkage_def)
  then show "runChecks (app, self) = (Inr False, (app, self))" by (simp add: runChecks_of_check)
next
  fix app' :: application
  assume a: "global_container_stack app' = global_container_stack app \<and>
      (same_up_to_unsliceable (scene_root app') (scene_root app) \<or>
       map own_data (filter (\<lambda>n. isSliceable n = Some True) (DepthFirstIterator (scene_root app'))) =
       map own_data (filter (\<lambda>n. isSliceable n = Some True) (DepthFirstIterator (scene_root app))))"
  then have st: "global_container_stack app' = global_container_stack app" by simp
  have views: "map own_data (sliceableNodes app') = map own_data (sliceableNodes app)"
  proof -
    from a have "same_up_to_unsliceable (scene_root app') (scene_root app) \<or>
       map own_data (filter (\<lambda>n. isSliceable n = Some True) (DepthFirstIterator (scene_root app'))) =
       map own_data (filter (\<lambda>n. isSliceable n = Some True) (DepthFirstIterator (scene_root app)))"
      by (rule conjunct2)
    then show ?thesis
    proof
      assume "same_up_to_unsliceable (scene_root app') (scene_root app)"
      then show ?thesis unfolding sliceableNodes_def by (rule same_up_to_unsliceable_views(1))
    next
      assume "map own_data (filter (\<lambda>n. isSliceable n = Some True) (DepthFirstIterator (scene_root app'))) =
       map own_data (filter (\<lambda>n. isSliceable n = Some True) (DepthFirstIterator (scene_root app)))"
      then show ?thesis unfolding sliceableNodes_def truthy_def .
    qed
  qed
  have ms: "getMaterialShrinkage app' = getMaterialShrinkage app"
    using st by (simp add: getMaterialShrinkage_def)
  show v: "map_sum id (map own_data) (checkObjectsForShrinkage app') =
        map_sum id (map own_data) (checkObjectsForShrinkage app)"
    unfolding checkObjectsForShrinkage_def ms by (rule check_loop_own_data [OF views refl])
  from runChecks_own_data [OF v]
  show "fst (runChecks (app', self)) = fst (runChecks (app, self))"
    and "snd (snd (runChecks (app', self))) = snd (snd (runChecks (app, self)))"
    by simp_all
qed

text \<open>
  A sliceable part with a child that is not sliceable: the check gives the same answer with
  a huge child on a shrinking material and with a tiny child on an extruder the machine does
  not have; and a huge node that is not sliceable raises no warning (C5).
\<close>

theorem only_sliceable_reported_witness:
  "fst (runChecks (app_with [part_with helper_mesh, pin] (Some two_extruders), init)) = Inr False \<and>
   fst (runChecks (app_with [part_with helper_small, pin] (Some two_extruders), init)) = Inr False \<and>
   runChecks (app_with [helper_mesh] (Some one_extruder), init) =
     (Inr False, (app_with [helper_mesh] (Some one_extruder), init))"
proof -
  let ?a = "app_with [part_with helper_mesh, pin] (Some two_extruders)"
  let ?b = "app_with [part_with helper_small, pin] (Some two_extruders)"
  have big: "fst (runChecks (?a, init)) = Inr False"
    by (simp add: runChecks_of_check check_part)
  have same: "global_container_stack ?b = global_container_stack ?a \<and>
      (same_up_to_unsliceable (scene_root ?b) (scene_root ?a) \<or>
       map own_data (filter (\<lambda>n. isSliceable n = Some True) (DepthFirstIterator (scene_root ?b))) =
       map own_data (filter (\<lambda>n. isSliceable n = Some True) (DepthFirstIterator (scene_root ?a))))"
    by (simp add: fixture_defs part_with_def helper_small_def truthy_def)
  from only_sliceable_reported [of ?a init] same have "fst (runChecks (?b, init)) = fst (runChecks (?a, init))"
    by blast
  with big have small: "fst (runChecks (?b, init)) = Inr False" by simp
  have "\<forall>n\<in>set (DepthFirstIterator (scene_root (app_with [helper_mesh] (Some one_extruder)))).
          isSliceable n \<noteq> Some True"
    by (simp add: fixture_defs)
  with only_sliceable_reported [of "app_with [helper_mesh] (Some one_extruder)" init]
  have "runChecks (app_with [helper_mesh] (Some one_extruder), init) =
     (Inr False, (app_with [helper_mesh] (Some one_extruder), init))" by blast
  with big small show ?thesis by simp
qed

subsection \<open>C6: the shrinkage of each extruder\<close>

text \<open>
  Claim C6. Without a global stack the dictionary is empty. With one, its keys are exactly
  the extruder positions, each position is mapped to the shrinkage of its material, and a material
  with no shrinkage value is mapped to 0, which is not above the threshold, so that no node on that
  extruder passes the test of the loop.
\<close>

theorem getMaterialShrinkage_mapping:
  "(global_container_stack app = None \<longrightarrow> getMaterialShrinkage app = Map.empty) \<and>
   (\<forall>stack. global_container_stack app = Some stack \<longrightarrow>
      dom (getMaterialShrinkage app) = fst ` set (extruders stack) \<and>
      (\<forall>k e. distinct (map fst (extruders stack)) \<and> (k, e) \<in> set (extruders stack) \<longrightarrow>
         getMaterialShrinkage app k =
           Some (case material_shrinkage_percentage e of None \<Rightarrow> 0 | Some v \<Rightarrow> v) \<and>
         (material_shrinkage_percentage e = None \<longrightarrow>
            getMaterialShrinkage app k = Some 0 \<and> \<not> (0 > SHRINKAGE_THRESHOLD) \<and>
            (\<forall>node. getActiveExtruderPosition node = Some k \<longrightarrow>
               \<not> exceeds (getMaterialShrinkage app) node))))"
proof (intro conjI allI impI)
  assume "global_container_stack app = None"
  then show "getMaterialShrinkage app = Map.empty" by (simp add: getMaterialShrinkage_def)
next
  fix stack assume s: "global_container_stack app = Some stack"
  then show "dom (getMaterialShrinkage app) = fst ` set (extruders stack)"
    by (simp add: getMaterialShrinkage_def dom_shrinkage_loop)
  fix k e assume ke: "distinct (map fst (extruders stack)) \<and> (k, e) \<in> set (extruders stack)"
  then show v: "getMaterialShrinkage app k =
      Some (case material_shrinkage_percentage e of None \<Rightarrow> 0 | Some v \<Rightarrow> v)"
    using s by (simp add: getMaterialShrinkage_def shrinkage_loop_hit)
  assume n: "material_shrinkage_percentage e = None"
  with v show z: "getMaterialShrinkage app k = Some 0" by simp
  show "\<not> (0 > SHRINKAGE_THRESHOLD)" by (simp add: SHRINKAGE_THRESHOLD_def)
  fix node assume "getActiveExtruderPosition node = Some k"
  with z show "\<not> exceeds (getMaterialShrinkage app) node"
    by (simp add: exceeds_def dict_getitem_def SHRINKAGE_THRESHOLD_def)
qed

text \<open>
  The dictionary of a machine with two extruders, the second without a value (C6).
\<close>

theorem getMaterialShrinkage_mapping_witness:
  "getMaterialShrinkage (app_with [] None) = Map.empty \<and>
   dom (getMaterialShrinkage (app_with [] (Some two_extruders))) = {''0'', ''1''} \<and>
   getMaterialShrinkage (app_with [] (Some two_extruders)) ''1'' = Some 0"
proof -
  let ?app = "app_with [] (Some two_extruders)"
  have s: "global_container_stack ?app = Some two_extruders" by (simp add: app_with_sel)
  have d: "distinct (map fst (extruders two_extruders)) \<and>
      (''1'', \<lparr>material_shrinkage_percentage = None\<rparr>) \<in> set (extruders two_extruders)"
    by (simp add: two_extruders_def)
  have n: "material_shrinkage_percentage \<lparr>material_shrinkage_percentage = None\<rparr> = None" by simp
  have "global_container_stack (app_with [] None) = None" by (simp add: app_with_sel)
  with getMaterialShrinkage_mapping [of "app_with [] None"] have a: "getMaterialShrinkage (app_with [] None) = Map.empty"
    by blast
  from getMaterialShrinkage_mapping [of ?app] s have b: "dom (getMaterialShrinkage ?app) = fst ` set (extruders two_extruders)"
    by blast
  from getMaterialShrinkage_mapping [of ?app] s d n have c: "getMaterialShrinkage ?app ''1'' = Some 0"
    by blast
  from a b c show ?thesis by (auto simp: two_extruders_def)
qed

subsection \<open>C7: one message at a time\<close>

text \<open>
  Claim C7. After \<open>showWarningMessage\<close> the caution message is visible and the happy
  message is not; after \<open>showHappyMessage\<close> it is the other way round; after \<open>showWarnings\<close>
  the two are never both visible.
\<close>

theorem messages_exclusive:
  "(visible (caution_message (showWarningMessage self)) \<and>
    \<not> visible (happy_message (showWarningMessage self))) \<and>
   (visible (happy_message (showHappyMessage self)) \<and>
    \<not> visible (caution_message (showHappyMessage self))) \<and>
   \<not> (visible (happy_message (snd (showWarnings (app, self)))) \<and>
      visible (caution_message (snd (showWarnings (app, self)))))"
  by (simp add: showWarningMessage_def showHappyMessage_def showWarnings_def
      show_message_def hide_message_def Let_def)

text \<open>
  The three calls on a fresh checker (C7).
\<close>

theorem messages_exclusive_witness:
  "visible (caution_message (showWarningMessage init)) \<and>
   visible (happy_message (showHappyMessage init)) \<and>
   visible (happy_message (snd (showWarnings (app_with [] None, init))))"
  using messages_exclusive [of init "app_with [] None"]
  by (simp add: showWarnings_def init_def createView_def showHappyMessage_def
      show_message_def hide_message_def Let_def)

subsection \<open>C9: a missing key\<close>

text \<open>
  Claim C9. If the extruder position of some sliceable node is not a key of the shrinkage
  dictionary, the check raises KeyError, and so does \<open>runChecks\<close>, leaving everything as it
  was. That is so in particular when there is no global stack and the scene has a sliceable
  node.
\<close>

theorem missing_key_raises:
  "((\<exists>n\<in>set (sliceableNodes app). getActiveExtruderPosition n \<notin> Some ` dom (getMaterialShrinkage app)) \<longrightarrow>
      checkObjectsForShrinkage app = Inl KeyError \<and> runChecks (app, self) = (Inl KeyError, (app, self))) \<and>
   (global_container_stack app = None \<and> sliceableNodes app \<noteq> [] \<longrightarrow>
      checkObjectsForShrinkage app = Inl KeyError \<and> runChecks (app, self) = (Inl KeyError, (app, self)))"
proof (intro conjI impI)
  assume a: "\<exists>n\<in>set (sliceableNodes app). getActiveExtruderPosition n \<notin> Some ` dom (getMaterialShrinkage app)"
  then show "checkObjectsForShrinkage app = Inl KeyError" by (rule checkObjectsForShrinkage_raises)
  then show "runChecks (app, self) = (Inl KeyError, (app, self))" by (simp add: runChecks_of_check)
next
  assume b: "global_container_stack app = None \<and> sliceableNodes app \<noteq> []"
  then have "getMaterialShrinkage app = Map.empty" by (simp add: getMaterialShrinkage_def)
  moreover from b obtain n where "n \<in> set (sliceableNodes app)" by (cases "sliceableNodes app") auto
  ultimately have "\<exists>n\<in>set (sliceableNodes app). getActiveExtruderPosition n \<notin> Some ` dom (getMaterialShrinkage app)"
    by auto
  then show "checkObjectsForShrinkage app = Inl KeyError" by (rule checkObjectsForShrinkage_raises)
  then show "runChecks (app, self) = (Inl KeyError, (app, self))" by (simp add: runChecks_of_check)
qed

text \<open>
  A scene without a machine, and a node on an extruder the machine lacks (C9).
\<close>

theorem missing_key_raises_witness:
  "checkObjectsForShrinkage (app_with [tower, cube] None) = Inl KeyError \<and>
   runChecks (app_with [pin] (Some one_extruder), init) = (Inl KeyError, (app_with [pin] (Some one_extruder), init))"
proof -
  have a: "global_container_stack (app_with [tower, cube] None) = None \<and>
      sliceableNodes (app_with [tower, cube] None) \<noteq> []"
    by (simp add: sliceableNodes_def truthy_def fixture_defs)
  have b: "\<exists>n\<in>set (sliceableNodes (app_with [pin] (Some one_extruder))).
      getActiveExtruderPosition n \<notin> Some ` dom (getMaterialShrinkage (app_with [pin] (Some one_extruder)))"
    by (simp add: shrinkage_one_extruder sliceableNodes_def truthy_def fixture_defs)
  from missing_key_raises [of "app_with [tower, cube] None" init] a
  have "checkObjectsForShrinkage (app_with [tower, cube] None) = Inl KeyError" by blast
  moreover from missing_key_raises [of "app_with [pin] (Some one_extruder)" init] b
  have "runChecks (app_with [pin] (Some one_extruder), init) =
      (Inl KeyError, (app_with [pin] (Some one_extruder), init))" by blast
  ultimately show ?thesis by simp
qed

subsection \<open>C10: what runChecks changes\<close>

text \<open>
  Claim C10. \<open>runChecks\<close> leaves the application as it was and changes at most the text of
  the caution message; unless it returns True it changes nothing. The flag \<open>_has_warnings\<close> is
  left as it was, is False after construction, and is False after any sequence of calls.
\<close>

theorem runChecks_frame:
  "(\<exists>t. snd (runChecks (app, self)) =
          (app, self\<lparr>caution_message := (caution_message self)\<lparr>msg_text := t\<rparr>\<rparr>)) \<and>
   (fst (runChecks (app, self)) \<noteq> Inr True \<longrightarrow> snd (runChecks (app, self)) = (app, self)) \<and>
   has_warnings (snd (snd (runChecks (app, self)))) = has_warnings self \<and>
   has_warnings init = False \<and>
   (\<forall>calls. has_warnings (snd (perform_all calls (app, init))) = False)"
proof (intro conjI allI impI)
  show "\<exists>t. snd (runChecks (app, self)) =
          (app, self\<lparr>caution_message := (caution_message self)\<lparr>msg_text := t\<rparr>\<rparr>)"
  proof (cases "fst (runChecks (app, self)) = Inr True")
    case True
    then show ?thesis by (auto simp: runChecks_of_check split: sum.splits if_splits)
  next
    case False
    then have "snd (runChecks (app, self)) = (app, self)"
      by (auto simp: runChecks_of_check split: sum.splits if_splits)
    then have "snd (runChecks (app, self)) =
          (app, self\<lparr>caution_message := (caution_message self)\<lparr>msg_text := msg_text (caution_message self)\<rparr>\<rparr>)"
      by simp
    then show ?thesis ..
  qed
  show "has_warnings (snd (snd (runChecks (app, self)))) = has_warnings self"
    by (simp add: runChecks_of_check split: sum.splits)
  show "has_warnings init = False" by (simp add: init_def)
  then show "has_warnings (snd (perform_all calls (app, init))) = False" for calls
    by (simp add: perform_all_has_warnings)
next
  assume "fst (runChecks (app, self)) \<noteq> Inr True"
  then show "snd (runChecks (app, self)) = (app, self)"
    by (auto simp: runChecks_of_check split: sum.splits if_splits)
qed

text \<open>
  A sequence of calls on a fresh checker, and a check that finds nothing (C10).
\<close>

theorem runChecks_frame_witness:
  "has_warnings (snd (perform_all [RunChecks, ShowWarnings, PluginsInitialized, RunChecks]
      (app_with [cube] (Some one_extruder), init))) = False \<and>
   snd (runChecks (app_with [pin] (Some two_extruders), init)) = (app_with [pin] (Some two_extruders), init)"
proof -
  have h: "\<forall>n\<in>set (sliceableNodes (app_with [pin] (Some two_extruders))).
      getActiveExtruderPosition n \<in> Some ` dom (getMaterialShrinkage (app_with [pin] (Some two_extruders)))"
    by (simp add: shrinkage_two_extruders sliceableNodes_def truthy_def fixture_defs)
  have "checkObjectsForShrinkage (app_with [pin] (Some two_extruders)) = Inr []"
    using checkObjectsForShrinkage_ok [OF h]
    by (simp add: shrinkage_two_extruders warns_by_spec_def fixture_defs)
  then have f: "fst (runChecks (app_with [pin] (Some two_extruders), init)) \<noteq> Inr True"
    by (simp add: runChecks_of_check)
  from runChecks_frame [of "app_with [cube] (Some one_extruder)" init]
  have "has_warnings (snd (perform_all [RunChecks, ShowWarnings, PluginsInitialized, RunChecks]
      (app_with [cube] (Some one_extruder), init))) = False" by blast
  moreover from runChecks_frame [of "app_with [pin] (Some two_extruders)" init] f
  have "snd (runChecks (app_with [pin] (Some two_extruders), init)) =
      (app_with [pin] (Some two_extruders), init)" by blast
  ultimately show ?thesis by simp
qed

end
